theory Spec2Isabelle
  imports Main
begin

section \<open>Text primitives of the Python runtime\<close>

text \<open>
  Python \<open>str\<close> and \<open>bytes\<close> values are modelled as \<open>string\<close>, one \<open>char\<close> per
  character. The model covers ASCII text: there \<open>str.encode('utf-8')\<close> is the identity
  and \<open>len\<close> of the encoded bytes is \<open>length\<close>.
\<close>

definition is_upper :: "char \<Rightarrow> bool" where
  "is_upper c = (c \<in> set ''ABCDEFGHIJKLMNOPQRSTUVWXYZ'')"

definition is_lower :: "char \<Rightarrow> bool" where
  "is_lower c = (c \<in> set ''abcdefghijklmnopqrstuvwxyz'')"

definition is_digit :: "char \<Rightarrow> bool" where
  "is_digit c = (c \<in> set ''0123456789'')"

text \<open>\<open>str.lower()\<close> on ASCII: only the letters A to Z change.\<close>

definition lower_char :: "char \<Rightarrow> char" where
  "lower_char c =
     (case map_of (zip ''ABCDEFGHIJKLMNOPQRSTUVWXYZ'' ''abcdefghijklmnopqrstuvwxyz'') c of
        Some d \<Rightarrow> d
      | None \<Rightarrow> c)"

definition lower :: "string \<Rightarrow> string" where
  "lower s = map lower_char s"

definition startswith :: "string \<Rightarrow> string \<Rightarrow> bool" where
  "startswith s w = (take (length w) s = w)"

definition endswith :: "string \<Rightarrow> string \<Rightarrow> bool" where
  "endswith s w = (length w \<le> length s \<and> drop (length s - length w) s = w)"

text \<open>\<open>s.lstrip(cs)\<close>, \<open>s.rstrip(cs)\<close> and \<open>s.strip(cs)\<close>: drop every leading (trailing)
  character that belongs to \<open>cs\<close>.\<close>

definition lstrip :: "string \<Rightarrow> string \<Rightarrow> string" where
  "lstrip cs s = dropWhile (\<lambda>c. c \<in> set cs) s"

definition rstrip :: "string \<Rightarrow> string \<Rightarrow> string" where
  "rstrip cs s = rev (dropWhile (\<lambda>c. c \<in> set cs) (rev s))"

definition strip :: "string \<Rightarrow> string \<Rightarrow> string" where
  "strip cs s = lstrip cs (rstrip cs s)"

text \<open>\<open>s.split(c, 1)\<close> for a separator that occurs in \<open>s\<close>: the text before the first
  occurrence and the text after it.\<close>

definition split_once :: "char \<Rightarrow> string \<Rightarrow> string \<times> string" where
  "split_once c s = (takeWhile (\<lambda>x. x \<noteq> c) s, drop 1 (dropWhile (\<lambda>x. x \<noteq> c) s))"

section \<open>Regular expressions of the filter lists\<close>

text \<open>
  The fragment of Python's \<open>re\<close> syntax that the two pattern lists use: literal text,
  \<open>.\<close> (any character but a newline), \<open>$\<close> (end of the text, or just before a final
  newline), \<open>?\<close>, concatenation and alternation. \<open>rx_match r s\<close> lists the remainders
  of \<open>s\<close> after every way \<open>r\<close> can match a prefix of it; \<open>re_search\<close> tries every start
  position, as \<open>re.search\<close> does.
\<close>

datatype rx = Str string | Dot | Eol | Opt rx | Cat "rx list" | Alt "rx list"

fun rx_match :: "rx \<Rightarrow> string \<Rightarrow> string list" where
  "rx_match (Str w) s = (if take (length w) s = w then [drop (length w) s] else [])"
| "rx_match Dot s = (case s of [] \<Rightarrow> [] | c # cs \<Rightarrow> if c = CHR 0x0A then [] else [cs])"
| "rx_match Eol s = (if s = [] \<or> s = [CHR 0x0A] then [s] else [])"
| "rx_match (Opt r) s = rx_match r s @ [s]"
| "rx_match (Alt rs) s = concat (map (\<lambda>r. rx_match r s) rs)"
| "rx_match (Cat []) s = [s]"
| "rx_match (Cat (r # rs)) s = concat (map (rx_match (Cat rs)) (rx_match r s))"

fun re_search :: "rx \<Rightarrow> string \<Rightarrow> bool" where
  "re_search r [] = (rx_match r [] \<noteq> [])"
| "re_search r (c # cs) = (rx_match r (c # cs) \<noteq> [] \<or> re_search r cs)"

text \<open>
  The source writes its patterns as raw strings with doubled backslashes, for example
  \<^verbatim>\<open>r'segment\\.com'\<close>. In a raw string both backslashes reach the regular expression
  compiler, which reads \<^verbatim>\<open>\\\<close> as one literal backslash and the following \<^verbatim>\<open>.\<close> as
  "any character". \<open>Bsl\<close> is that literal backslash; \<^verbatim>\<open>\/\<close> is a plain slash.
\<close>

definition Bsl :: rx where
  "Bsl = Str [CHR 0x5C]"

definition UNINTERESTING_JS_STRICT :: "rx list" where
  "UNINTERESTING_JS_STRICT =
   [Cat [Str ''segment'', Bsl, Dot, Str ''com''],
    Cat [Str ''google-analytics'', Bsl, Dot, Str ''com''],
    Cat [Str ''googletagmanager'', Bsl, Dot, Str ''com''],
    Cat [Str ''facebook'', Bsl, Dot, Str ''net''],
    Cat [Str ''twitter'', Bsl, Dot, Str ''com''],
    Cat [Str ''linkedin'', Bsl, Dot, Str ''com''],
    Cat [Str ''hotjar'', Bsl, Dot, Str ''com''],
    Cat [Str ''jquery'', Opt (Cat [Bsl, Dot, Str ''min'']), Bsl, Dot, Str ''js''],
    Cat [Str ''bootstrap'', Opt (Cat [Bsl, Dot, Str ''min'']), Bsl, Dot, Str ''js''],
    Cat [Str ''cdn'', Bsl, Dot, Str ''jsdelivr'', Bsl, Dot, Str ''net''],
    Cat [Str ''cdn'', Bsl, Dot, Str ''cloudflare'', Bsl, Dot, Str ''com''],
    Cat [Str ''polyfill'', Bsl, Dot, Str ''io''],
    Cat [Str ''ad'', Opt (Str ''s''), Bsl, Dot],
    Cat [Str ''track'', Opt (Str ''ing''), Bsl, Dot, Str ''js''],
    Cat [Str ''analytics'', Bsl, Dot, Str ''js''],
    Cat [Str ''gtm'', Bsl, Dot, Str ''js''],
    Cat [Str ''optimizely'', Bsl, Dot, Str ''com''],
    Cat [Bsl, Dot, Str ''min'', Bsl, Dot, Str ''js'', Eol],
    Str ''webpack'', Str ''react'', Str ''vue'', Str ''angular'',
    Str ''/vendor/'', Str ''/plugins/'',
    Str ''/docs/'', Str ''/themes/'', Str ''/dist/'',
    Cat [Bsl, Dot,
         Alt [Str ''woff'', Str ''woff2'', Str ''ttf'', Str ''ttc'', Str ''otf'', Str ''eot'',
              Str ''svg'', Str ''png'', Str ''jpg'', Str ''js''],
         Eol]]"

definition UNINTERESTING_JS_RELAXED :: "rx list" where
  "UNINTERESTING_JS_RELAXED =
   [Cat [Str ''segment'', Bsl, Dot, Str ''com''],
    Cat [Str ''google-analytics'', Bsl, Dot, Str ''com''],
    Str ''googletagmanager'',
    Cat [Str ''facebook'', Bsl, Dot, Str ''com''],
    Cat [Str ''twitter'', Bsl, Dot, Str ''com''],
    Cat [Str ''linkedin'', Bsl, Dot, Str ''com''],
    Alt [Str ''hotspot'', Str ''hotjar''],
    Cat [Str ''jquery'', Alt [Cat [Bsl, Dot, Str ''com'', Eol], Cat [Bsl, Dot, Str ''js'']]],
    Cat [Str ''bootstrap'', Cat [Bsl, Dot, Str ''js'']],
    Cat [Str ''cdn'', Bsl, Dot, Str ''js'', Bsl, Dot],
    Cat [Str ''cloudflare'', Bsl, Dot, Str ''com''],
    Cat [Str ''polyfill'', Bsl, Dot, Str ''io''],
    Cat [Str ''ad'', Opt (Str ''s''), Bsl, Dot],
    Cat [Str ''track'', Opt (Str ''ing''), Bsl, Dot, Str ''js''],
    Cat [Str ''analytics'', Bsl, Dot, Str ''js''],
    Cat [Str ''gtm'', Bsl, Dot, Str ''js''],
    Cat [Str ''optimizely'', Bsl, Dot, Str ''com''],
    Str ''webpack'', Str ''react'', Str ''vue'', Str ''angular'',
    Cat [Bsl, Dot,
         Alt [Str ''woff'', Str ''woff2'', Str ''ttf'', Str ''eot'', Str ''svg'', Str ''png'',
              Str ''jpg''],
         Bsl, Dot, Str ''js'', Eol]]"

section \<open>Helper functions\<close>

definition is_interesting_js :: "string \<Rightarrow> rx list \<Rightarrow> bool" where
  "is_interesting_js u uninteresting_patterns =
     (let lower_url = lower u
      in \<not> list_ex (\<lambda>pattern. re_search pattern lower_url) uninteresting_patterns)"

definition is_interesting_inline_script :: "string \<Rightarrow> rx list \<Rightarrow> bool" where
  "is_interesting_inline_script content uninteresting_patterns =
     (let lower_content = lower content
      in \<not> list_ex (\<lambda>pattern. re_search pattern lower_content) uninteresting_patterns)"

text \<open>The character class \<^verbatim>\<open>[<>:"/\\|?*\']\<close> of \<open>sanitize_filename_part\<close>.\<close>

definition forbidden_chars :: string where
  "forbidden_chars =
     [CHR ''<'', CHR ''>'', CHR '':'', CHR 0x22, CHR ''/'', CHR 0x5C, CHR ''|'', CHR ''?'',
      CHR ''*'', CHR 0x27]"

text \<open>\<^verbatim>\<open>re.sub(r'_+', '_', text)\<close>: every run of underscores becomes one underscore.\<close>

fun collapse_underscores :: "string \<Rightarrow> string" where
  "collapse_underscores (c # d # cs) =
     (if c = CHR ''_'' \<and> d = CHR ''_'' then collapse_underscores (d # cs)
      else c # collapse_underscores (d # cs))"
| "collapse_underscores cs = cs"

definition sanitize_filename_part :: "string \<Rightarrow> string" where
  "sanitize_filename_part text0 =
     (let text1 = map (\<lambda>c. if c \<in> set forbidden_chars then CHR ''_'' else c) text0;
          text2 = collapse_underscores text1
      in strip ''_'' text2)"

subsection \<open>\<open>urllib.parse\<close>\<close>

text \<open>
  \<open>urlparse\<close> and \<open>urlunparse\<close> follow CPython 3.11 on ASCII text. The library also
  validates a bracketed (IPv6) host and raises \<open>ValueError\<close> on a malformed one; URLs whose
  authority contains a square bracket are outside this model.
\<close>

record parse_result =
  scheme :: string
  netloc :: string
  path :: string
  params :: string
  query :: string
  fragment :: string

definition scheme_chars :: string where
  "scheme_chars = ''abcdefghijklmnopqrstuvwxyzABCDEFGHIJKLMNOPQRSTUVWXYZ0123456789+-.''"

definition uses_params :: "string list" where
  "uses_params = ['''', ''ftp'', ''hdl'', ''prospero'', ''http'', ''imap'', ''https'', ''shttp'',
     ''rtsp'', ''rtsps'', ''rtspu'', ''sip'', ''sips'', ''mms'', ''sftp'', ''tel'']"

definition uses_netloc :: "string list" where
  "uses_netloc = ['''', ''ftp'', ''http'', ''gopher'', ''nntp'', ''telnet'', ''imap'', ''wais'',
     ''file'', ''mms'', ''https'', ''shttp'', ''snews'', ''prospero'', ''rtsp'', ''rtsps'',
     ''rtspu'', ''rsync'', ''svn'', ''svn+ssh'', ''sftp'', ''nfs'', ''git'', ''git+ssh'', ''ws'',
     ''wss'']"

text \<open>The characters \<^verbatim>\<open>\x00\<close> to \<^verbatim>\<open>\x1f\<close> and the space, stripped from the left of a URL.\<close>

definition c0_control_or_space :: "char \<Rightarrow> bool" where
  "c0_control_or_space c = ((of_char c :: nat) \<le> 32)"

definition unsafe_url_bytes :: string where
  "unsafe_url_bytes = [CHR 0x09, CHR 0x0D, CHR 0x0A]"

text \<open>The scheme test of \<open>urlsplit\<close>: a colon at position \<open>i > 0\<close>, a first character that
  is an ASCII letter, and only scheme characters before the colon.\<close>

definition split_scheme :: "string \<Rightarrow> string \<times> string" where
  "split_scheme u =
     (let pre = takeWhile (\<lambda>c. c \<noteq> CHR '':'') u
      in if CHR '':'' \<in> set u \<and> pre \<noteq> [] \<and> (is_upper (hd pre) \<or> is_lower (hd pre))
            \<and> (\<forall>c \<in> set pre. c \<in> set scheme_chars)
         then (lower pre, drop (length pre + 1) u)
         else ('''', u))"

definition splitnetloc :: "string \<Rightarrow> string \<times> string" where
  "splitnetloc u =
     (if take 2 u = ''//''
      then (takeWhile (\<lambda>c. c \<notin> set ''/?#'') (drop 2 u),
            dropWhile (\<lambda>c. c \<notin> set ''/?#'') (drop 2 u))
      else ('''', u))"

definition urlsplit :: "string \<Rightarrow> string \<times> string \<times> string \<times> string \<times> string" where
  "urlsplit u0 =
     (let u1 = dropWhile c0_control_or_space u0;
          u2 = filter (\<lambda>c. c \<notin> set unsafe_url_bytes) u1;
          (sch, u3) = split_scheme u2;
          (nl, u4) = splitnetloc u3;
          (u5, frag) = (if CHR ''#'' \<in> set u4 then split_once CHR ''#'' u4 else (u4, ''''));
          (u6, qry) = (if CHR ''?'' \<in> set u5 then split_once CHR ''?'' u5 else (u5, ''''))
      in (sch, nl, u6, qry, frag))"

text \<open>\<open>_splitparams\<close>: the parameters are what follows the first semicolon of the last
  path segment.\<close>

definition splitparams :: "string \<Rightarrow> string \<times> string" where
  "splitparams u =
     (let seg = rev (takeWhile (\<lambda>c. c \<noteq> CHR ''/'') (rev u));
          dir = rev (dropWhile (\<lambda>c. c \<noteq> CHR ''/'') (rev u))
      in if CHR ''/'' \<in> set u \<and> CHR '';'' \<notin> set seg then (u, '''')
         else (dir @ takeWhile (\<lambda>c. c \<noteq> CHR '';'') seg,
               drop 1 (dropWhile (\<lambda>c. c \<noteq> CHR '';'') seg)))"

definition urlparse :: "string \<Rightarrow> parse_result" where
  "urlparse u =
     (let (sch, nl, p, qry, frag) = urlsplit u;
          (p', prm) = (if sch \<in> set uses_params \<and> CHR '';'' \<in> set p then splitparams p
                       else (p, ''''))
      in \<lparr>scheme = sch, netloc = nl, path = p', params = prm, query = qry, fragment = frag\<rparr>)"

definition urlunsplit :: "string \<Rightarrow> string \<Rightarrow> string \<Rightarrow> string \<Rightarrow> string \<Rightarrow> string" where
  "urlunsplit sch nl u qry frag =
     (let u1 = (if nl \<noteq> [] \<or> (sch \<noteq> [] \<and> sch \<in> set uses_netloc) \<or> take 2 u = ''//''
                then ''//'' @ nl @ (if u \<noteq> [] \<and> take 1 u \<noteq> ''/'' then ''/'' @ u else u)
                else u);
          u2 = (if sch \<noteq> [] then sch @ '':'' @ u1 else u1);
          u3 = (if qry \<noteq> [] then u2 @ ''?'' @ qry else u2)
      in if frag \<noteq> [] then u3 @ ''#'' @ frag else u3)"

definition urlunparse :: "parse_result \<Rightarrow> string" where
  "urlunparse r =
     urlunsplit (scheme r) (netloc r)
       (if params r \<noteq> [] then path r @ '';'' @ params r else path r) (query r) (fragment r)"

subsection \<open>Naming\<close>

text \<open>\<open>hashlib.sha256(content).hexdigest()\<close> is a parameter \<open>hexdigest\<close> of the
  environment, as is the file system: \<open>write_ok name\<close> tells whether creating and writing
  the file \<open>name\<close> in the output directory succeeds.\<close>

record env =
  hexdigest :: "string \<Rightarrow> string"
  write_ok :: "string \<Rightarrow> bool"

definition build_filename :: "env \<Rightarrow> string \<Rightarrow> string \<Rightarrow> string" where
  "build_filename e u content =
     (let parsed = urlparse u;
          host = sanitize_filename_part (netloc parsed);
          p0 = lstrip ''/'' (path parsed);
          p1 = (if endswith p0 ''.js'' then take (length p0 - 3) p0 else p0);
          p2 = sanitize_filename_part p1;
          hash_prefix = take 8 (hexdigest e content)
      in host @ ''_'' @ p2 @ ''_'' @ hash_prefix @ ''.js'')"

definition get_domain_from_url :: "string \<Rightarrow> string" where
  "get_domain_from_url u =
     (let parsed = urlparse u;
          dom = (if netloc parsed \<noteq> [] then netloc parsed else path parsed)
      in lower dom)"

definition normalize_url :: "string \<Rightarrow> string" where
  "normalize_url u =
     (let parsed = urlparse u;
          nl0 = lower (netloc parsed);
          nl1 = (if startswith nl0 ''www.'' then drop 4 nl0 else nl0);
          p = rstrip ''/'' (path parsed)
      in urlunparse \<lparr>scheme = lower (scheme parsed), netloc = nl1, path = p, params = '''',
                     query = '''', fragment = ''''\<rparr>)"

section \<open>The asset collector\<close>

text \<open>
  A network response as Playwright hands it to the handler: the resource type of its
  request, its URL, and its body; \<open>None\<close> is a body that cannot be read
  (\<open>response.body()\<close> raises).
\<close>

record response =
  resource_type :: string
  url :: string
  body :: "string option"

text \<open>What \<open>on_response\<close> catches and reports through \<open>log.error\<close>.\<close>

datatype failure = Body_unavailable | Write_failed

text \<open>
  The state a session shares between its handlers: \<open>hash_set\<close>, the three entries of
  \<open>skipped_counters\<close>, the list \<open>errors\<close>, the files written to the output directory
  (name and content, in the order of writing), the messages of \<open>log.error\<close> (URL and
  cause) and the URLs of the pages a collector was registered on, in order. Calls of
  \<open>log.debug\<close> print nothing at the configured level and are left out.
\<close>

record ledger =
  hash_set :: "string set"
  small :: nat
  duplicate :: nat
  uninteresting :: nat
  errors :: "string list"
  saved :: "(string \<times> string) list"
  error_log :: "(string \<times> failure) list"
  collectors :: "string list"

text \<open>The values \<open>collect_js_urls\<close> closes over.\<close>

record collector =
  domain :: string
  uninteresting_patterns :: "rx list"
  include_cross_origin :: bool
  min_size :: int

definition on_response :: "env \<Rightarrow> collector \<Rightarrow> response \<Rightarrow> ledger \<Rightarrow> ledger" where
  "on_response e cfg resp s =
     (if resource_type resp \<in> set [''script'', ''fetch'', ''xhr''] then
        let u = url resp;
            url_domain = get_domain_from_url u
        in if (include_cross_origin cfg \<or> url_domain = domain cfg)
              \<and> is_interesting_js u (uninteresting_patterns cfg)
           then (case body resp of
                   None \<Rightarrow> s\<lparr>error_log := error_log s @ [(u, Body_unavailable)]\<rparr>
                 | Some content \<Rightarrow>
                     if int (length content) < min_size cfg
                     then s\<lparr>small := small s + 1\<rparr>
                     else let content_hash = hexdigest e content
                          in if content_hash \<in> hash_set s
                             then s\<lparr>duplicate := duplicate s + 1\<rparr>
                             else let s1 = s\<lparr>hash_set := insert content_hash (hash_set s)\<rparr>;
                                      filename = build_filename e u content
                                  in if write_ok e filename
                                     then s1\<lparr>saved := saved s1 @ [(filename, content)]\<rparr>
                                     else s1\<lparr>error_log := error_log s1 @ [(u, Write_failed)]\<rparr>)
           else s
      else s)"

text \<open>
  The loop of \<open>process_inline_scripts\<close>, with its counter \<open>inline_count\<close>. The loop has
  no handler of its own: a failing write leaves the function with the exception, which is
  the result \<open>None\<close>; the state keeps what was done before.
\<close>

fun inline_loop :: "env \<Rightarrow> collector \<Rightarrow> string list \<Rightarrow> nat \<Rightarrow> ledger \<Rightarrow> ledger \<times> nat option" where
  "inline_loop e cfg [] inline_count s = (s, Some inline_count)"
| "inline_loop e cfg (script # rest) inline_count s =
     (if \<not> is_interesting_inline_script script (uninteresting_patterns cfg)
      then inline_loop e cfg rest inline_count (s\<lparr>uninteresting := uninteresting s + 1\<rparr>)
      else let content = script
           in if int (length content) < min_size cfg
              then inline_loop e cfg rest inline_count (s\<lparr>small := small s + 1\<rparr>)
              else let content_hash = hexdigest e content
                   in if content_hash \<in> hash_set s
                      then inline_loop e cfg rest inline_count (s\<lparr>duplicate := duplicate s + 1\<rparr>)
                      else let s1 = s\<lparr>hash_set := insert content_hash (hash_set s)\<rparr>;
                               filename = domain cfg @ ''_inline_'' @ take 8 content_hash @ ''.js''
                           in if write_ok e filename
                              then inline_loop e cfg rest (inline_count + 1)
                                     (s1\<lparr>saved := saved s1 @ [(filename, content)]\<rparr>)
                              else (s1, None))"

definition process_inline_scripts :: "env \<Rightarrow> collector \<Rightarrow> string list \<Rightarrow> ledger \<Rightarrow> ledger \<times> nat option" where
  "process_inline_scripts e cfg inline_scripts s = inline_loop e cfg inline_scripts 0 s"

section \<open>The crawl\<close>

text \<open>
  What the browser does when a page is sent to a URL: the responses its collector
  receives, and either the \<open>href\<close> values of the page's links, already resolved against
  the page's URL by \<open>urljoin\<close>, or the message of the exception that \<open>page.goto\<close> or the
  link query raises. Responses are handled when the page is opened.
\<close>

datatype nav = Nav_ok "string list" | Nav_failed string

record page =
  responses :: "response list"
  outcome :: nav

function crawl_links ::
  "env \<Rightarrow> collector \<Rightarrow> bool \<Rightarrow> (string \<Rightarrow> page) \<Rightarrow> string \<Rightarrow> int \<Rightarrow> string set \<times> ledger
     \<Rightarrow> string set \<times> ledger" where
  "crawl_links e cfg crawl site current_url max_depth (visited, s) =
     (if \<not> crawl then (visited, s)
      else let normalized_url = normalize_url current_url
           in if normalized_url \<in> visited then (visited, s)
              else let visited1 = insert normalized_url visited
                   in if max_depth \<le> 0 then (visited1, s)
                      else let s1 = s\<lparr>collectors := collectors s @ [current_url]\<rparr>;
                               pg = site current_url;
                               s2 = foldl (\<lambda>t r. on_response e cfg r t) s1 (responses pg)
                           in (case outcome pg of
                                 Nav_failed msg \<Rightarrow>
                                   (visited1,
                                    s2\<lparr>errors := errors s2 @
                                          [''Crawl error: '' @ current_url @ '' - '' @ msg]\<rparr>)
                               | Nav_ok links \<Rightarrow>
                                   let hrefs = filter (\<lambda>href. get_domain_from_url href = domain cfg
                                                        \<and> normalize_url href \<notin> visited1) links
                                   in foldl (\<lambda>vs href. crawl_links e cfg crawl site href
                                                          (max_depth - 1) vs)
                                        (visited1, s2) hrefs))"
  by pat_completeness auto
termination
  by (relation "measure (\<lambda>(e, cfg, crawl, site, current_url, max_depth, vs). nat max_depth)") auto

section \<open>The session\<close>

record args =
  target_url :: string
  filter_mode :: string
  arg_min_size :: int
  arg_crawl :: bool
  arg_max_depth :: int
  arg_include_cross_origin :: bool

text \<open>What the browser delivers during one session: the responses of the root page, the
  message of a failed first navigation, the site as the crawl finds it, and the inline
  scripts extracted from the root page.\<close>

record world =
  root_responses :: "response list"
  root_nav_error :: "string option"
  site_pages :: "string \<Rightarrow> page"
  inline_scripts :: "string list"

definition new_ledger :: ledger where
  "new_ledger = \<lparr>hash_set = {}, small = 0, duplicate = 0, uninteresting = 0, errors = [],
                   saved = [], error_log = [], collectors = []\<rparr>"

definition collector_of :: "args \<Rightarrow> collector" where
  "collector_of a =
     \<lparr>domain = get_domain_from_url (target_url a),
      uninteresting_patterns =
        (if filter_mode a = ''strict'' then UNINTERESTING_JS_STRICT else UNINTERESTING_JS_RELAXED),
      include_cross_origin = arg_include_cross_origin a,
      min_size = arg_min_size a\<rparr>"

definition download_js_files :: "env \<Rightarrow> args \<Rightarrow> world \<Rightarrow> ledger \<times> nat option" where
  "download_js_files e a w =
     (let cfg = collector_of a;
          s0 = new_ledger\<lparr>collectors := [target_url a]\<rparr>;
          s1 = foldl (\<lambda>t r. on_response e cfg r t) s0 (root_responses w);
          s2 = (case root_nav_error w of
                  None \<Rightarrow> s1
                | Some msg \<Rightarrow> s1\<lparr>errors := errors s1 @ [''Initial navigation error: '' @ msg]\<rparr>);
          (visited, s3) = crawl_links e cfg (arg_crawl a) (site_pages w) (target_url a)
                            (arg_max_depth a) ({}, s2)
      in process_inline_scripts e cfg (inline_scripts w) s3)"

section \<open>Notions used by the properties\<close>

text \<open>The gate in front of the body read in \<open>on_response\<close>: the resource type, the
  origin test and the URL filter.\<close>

definition accepted :: "collector \<Rightarrow> response \<Rightarrow> bool" where
  "accepted cfg resp =
     (resource_type resp \<in> set [''script'', ''fetch'', ''xhr'']
      \<and> (include_cross_origin cfg \<or> get_domain_from_url (url resp) = domain cfg)
      \<and> is_interesting_js (url resp) (uninteresting_patterns cfg))"



section \<open>Example data\<close>

text \<open>A stand-in for the digest in the examples: the hexadecimal form of the content,
  which is free of collisions. The theorems hold for every digest function.\<close>

definition hex_digit :: "nat \<Rightarrow> char" where
  "hex_digit n = ''0123456789abcdef'' ! n"

definition hex_of_text :: "string \<Rightarrow> string" where
  "hex_of_text c = concat (map (\<lambda>x. [hex_digit (of_char x div 16), hex_digit (of_char x mod 16)]) c)"

definition example_env :: env where
  "example_env = \<lparr>hexdigest = hex_of_text, write_ok = (\<lambda>name. True)\<rparr>"

definition full_disk_env :: env where
  "full_disk_env = \<lparr>hexdigest = hex_of_text, write_ok = (\<lambda>name. False)\<rparr>"

definition example_cfg :: collector where
  "example_cfg = \<lparr>domain = ''example.com'', uninteresting_patterns = UNINTERESTING_JS_STRICT,
                   include_cross_origin = False, min_size = 4\<rparr>"

definition empty_site :: "string \<Rightarrow> page" where
  "empty_site u = \<lparr>responses = [], outcome = Nav_ok []\<rparr>"

definition example_args :: args where
  "example_args =
     \<lparr>target_url = ''https://example.com'', filter_mode = ''strict'', arg_min_size = 4,
      arg_crawl = False, arg_max_depth = 2, arg_include_cross_origin = False\<rparr>"

definition app_resp :: response where
  "app_resp = \<lparr>resource_type = ''script'', url = ''https://example.com/app.js'',
                body = Some ''let a = 1;''\<rparr>"

definition lib_resp :: response where
  "lib_resp = \<lparr>resource_type = ''script'', url = ''https://example.com/lib.js'',
                body = Some ''let a = 1;''\<rparr>"

definition tiny_resp :: response where
  "tiny_resp = \<lparr>resource_type = ''script'', url = ''https://example.com/tiny.js'',
                 body = Some ''y''\<rparr>"

definition ads_resp :: response where
  "ads_resp = \<lparr>resource_type = ''script'', url = ''https://ads.example.net/track.js'',
                body = None\<rparr>"



text \<open>A response whose body cannot be read.\<close>

definition broken_resp :: response where
  "broken_resp = \<lparr>resource_type = ''script'', url = ''https://example.com/app.js'',
                   body = None\<rparr>"

text \<open>A session on a target with an explicit port, whose page holds one inline script.\<close>

definition port_args :: args where
  "port_args =
     \<lparr>target_url = ''https://example.com:8443'', filter_mode = ''strict'', arg_min_size = 4,
      arg_crawl = False, arg_max_depth = 2, arg_include_cross_origin = False\<rparr>"

definition port_world :: world where
  "port_world =
     \<lparr>root_responses = [], root_nav_error = None, site_pages = empty_site,
      inline_scripts = [''var b = 2;'']\<rparr>"

text \<open>A site of three pages that link in a cycle: a to b, b to c, c to a.\<close>

definition cycle_site :: "string \<Rightarrow> page" where
  "cycle_site u =
     (if u = ''https://example.com/a''
      then \<lparr>responses = [], outcome = Nav_ok [''https://example.com/b'']\<rparr>
      else if u = ''https://example.com/b''
      then \<lparr>responses = [], outcome = Nav_ok [''https://example.com/c'']\<rparr>
      else if u = ''https://example.com/c''
      then \<lparr>responses = [], outcome = Nav_ok [''https://example.com/a'']\<rparr>
      else \<lparr>responses = [], outcome = Nav_ok []\<rparr>)"

section \<open>Properties\<close>

declare crawl_links.simps [simp del]

lemma foldl_preserves:
  assumes "\<And>a x. x \<in> set xs \<Longrightarrow> P a \<Longrightarrow> P (f a x)" and "P a"
  shows "P (foldl f a xs)"
  using assms by (induction xs arbitrary: a) auto


lemma on_response_body_error:
  "accepted cfg r \<Longrightarrow> body r = None \<Longrightarrow>
   on_response e cfg r s = s\<lparr>error_log := error_log s @ [(url r, Body_unavailable)]\<rparr>"
  by (simp add: on_response_def accepted_def Let_def)



lemma on_response_new:
  "accepted cfg r \<Longrightarrow> body r = Some c \<Longrightarrow> min_size cfg \<le> int (length c) \<Longrightarrow>
   hexdigest e c \<notin> hash_set s \<Longrightarrow>
   on_response e cfg r s =
     (if write_ok e (build_filename e (url r) c)
      then s\<lparr>hash_set := insert (hexdigest e c) (hash_set s),
              saved := saved s @ [(build_filename e (url r) c, c)]\<rparr>
      else s\<lparr>hash_set := insert (hexdigest e c) (hash_set s),
              error_log := error_log s @ [(url r, Write_failed)]\<rparr>)"
  by (simp add: on_response_def accepted_def Let_def)

lemma on_response_uninteresting: "uninteresting (on_response e cfg r s) = uninteresting s"
  by (simp add: on_response_def Let_def split: option.splits)

lemma on_response_errors: "errors (on_response e cfg r s) = errors s"
  by (simp add: on_response_def Let_def split: option.splits)

lemma on_response_collectors: "collectors (on_response e cfg r s) = collectors s"
  by (simp add: on_response_def Let_def split: option.splits)



lemma crawl_links_stop:
  "\<not> crawl \<or> normalize_url u \<in> visited \<Longrightarrow>
   crawl_links e cfg crawl site u d (visited, s) = (visited, s)"
  by (subst crawl_links.simps) (auto simp: Let_def)

lemma crawl_links_depth0:
  "crawl \<Longrightarrow> normalize_url u \<notin> visited \<Longrightarrow> d \<le> 0 \<Longrightarrow>
   crawl_links e cfg crawl site u d (visited, s) = (insert (normalize_url u) visited, s)"
  by (subst crawl_links.simps) (simp add: Let_def)

lemma foldl_on_response_errors:
  "errors (foldl (\<lambda>t r. on_response e cfg r t) t0 rs) = errors t0"
  by (induction rs arbitrary: t0) (simp_all add: on_response_errors)

lemma crawl_links_failed:
  assumes "crawl" "normalize_url u \<notin> visited" "0 < d" "outcome (site u) = Nav_failed msg"
  shows "crawl_links e cfg crawl site u d (visited, s) =
          (insert (normalize_url u) visited,
           (foldl (\<lambda>t r. on_response e cfg r t) (s\<lparr>collectors := collectors s @ [u]\<rparr>)
              (responses (site u)))
            \<lparr>errors := errors s @ [''Crawl error: '' @ u @ '' - '' @ msg]\<rparr>)"
  using assms
  by (subst crawl_links.simps) (simp add: Let_def foldl_on_response_errors)

lemma crawl_links_expand:
  assumes "crawl" "normalize_url u \<notin> visited" "0 < d" "outcome (site u) = Nav_ok links"
  shows "crawl_links e cfg crawl site u d (visited, s) =
          foldl (\<lambda>vs href. crawl_links e cfg crawl site href (d - 1) vs)
            (insert (normalize_url u) visited,
             foldl (\<lambda>t r. on_response e cfg r t) (s\<lparr>collectors := collectors s @ [u]\<rparr>)
               (responses (site u)))
            (filter (\<lambda>href. get_domain_from_url href = domain cfg
                      \<and> normalize_url href \<notin> insert (normalize_url u) visited) links)"
  using assms
  by (subst crawl_links.simps) (simp add: Let_def)



lemmas text_defs = lower_def lower_char_def startswith_def endswith_def lstrip_def rstrip_def
  strip_def split_once_def is_upper_def is_lower_def

lemmas urlparse_defs = urlparse_def urlsplit_def split_scheme_def splitnetloc_def splitparams_def
  c0_control_or_space_def unsafe_url_bytes_def scheme_chars_def uses_params_def

lemmas urlunparse_defs = urlunparse_def urlunsplit_def uses_netloc_def

lemmas filter_defs = is_interesting_js_def is_interesting_inline_script_def
  UNINTERESTING_JS_STRICT_def UNINTERESTING_JS_RELAXED_def Bsl_def

lemma domain_example: "get_domain_from_url ''https://example.com'' = ''example.com''"
  by (simp add: get_domain_from_url_def urlparse_defs text_defs)

lemma domain_app: "get_domain_from_url ''https://example.com/app.js'' = ''example.com''"
  by (simp add: get_domain_from_url_def urlparse_defs text_defs)

lemma domain_ads: "get_domain_from_url ''https://ads.example.net/track.js'' = ''ads.example.net''"
  by (simp add: get_domain_from_url_def urlparse_defs text_defs)

lemma interesting_app: "is_interesting_js ''https://example.com/app.js'' UNINTERESTING_JS_STRICT"
  by (simp add: filter_defs text_defs)


lemma foldl_on_response_uninteresting:
  "uninteresting (foldl (\<lambda>t r. on_response e cfg r t) t0 rs) = uninteresting t0"
  by (induction rs arbitrary: t0) (simp_all add: on_response_uninteresting)




lemma domain_lib: "get_domain_from_url ''https://example.com/lib.js'' = ''example.com''"
  by (simp add: get_domain_from_url_def urlparse_defs text_defs)

lemma domain_tiny: "get_domain_from_url ''https://example.com/tiny.js'' = ''example.com''"
  by (simp add: get_domain_from_url_def urlparse_defs text_defs)

lemma interesting_lib: "is_interesting_js ''https://example.com/lib.js'' UNINTERESTING_JS_STRICT"
  by (simp add: filter_defs text_defs)

lemma interesting_tiny: "is_interesting_js ''https://example.com/tiny.js'' UNINTERESTING_JS_STRICT"
  by (simp add: filter_defs text_defs)

lemma filename_lib:
  "build_filename e ''https://example.com/lib.js'' c =
     ''example.com_lib_'' @ take 8 (hexdigest e c) @ ''.js''"
  by (simp add: build_filename_def urlparse_defs text_defs sanitize_filename_part_def
      forbidden_chars_def)

lemma hex_let_a: "hex_of_text ''let a = 1;'' = ''6c65742061203d20313b''"
  by (simp add: hex_of_text_def hex_digit_def)

lemma hex_var_b: "hex_of_text ''var b = 2;'' = ''7661722062203d20323b''"
  by (simp add: hex_of_text_def hex_digit_def)

lemma inline_filter_examples:
  "is_interesting_inline_script ''let a = 1;'' UNINTERESTING_JS_STRICT"
  "is_interesting_inline_script ''var b = 2;'' UNINTERESTING_JS_STRICT"
  "\<not> is_interesting_inline_script ''react()'' UNINTERESTING_JS_STRICT"
  "is_interesting_inline_script ''y'' UNINTERESTING_JS_STRICT"
  by (simp_all add: filter_defs text_defs)

lemma collector_of_example:
  "collector_of example_args =
     \<lparr>domain = ''example.com'', uninteresting_patterns = UNINTERESTING_JS_STRICT,
      include_cross_origin = False, min_size = 4\<rparr>"
  by (simp add: collector_of_def example_args_def domain_example)

lemma accepted_examples:
  "accepted (collector_of example_args) app_resp"
  "accepted (collector_of example_args) lib_resp"
  "accepted (collector_of example_args) tiny_resp"
  "\<not> accepted (collector_of example_args) ads_resp"
  by (simp_all add: accepted_def collector_of_example app_resp_def lib_resp_def tiny_resp_def
      ads_resp_def domain_app domain_lib domain_tiny domain_ads interesting_app interesting_lib
      interesting_tiny)








subsection \<open>Size floor\<close>



subsection \<open>Responses and the counter of uninteresting scripts\<close>



subsection \<open>The same-origin scenario\<close>



subsection \<open>Persistence at most once\<close>




subsection \<open>The filter lists\<close>

text \<open>
  C2. The strict list does not reject a URL of an analytics domain, of a CDN, or with a
  minified file name: its rules for them ask for a literal backslash, which no such URL
  contains. It does reject a URL with a \<^verbatim>\<open>/vendor/\<close> segment.
\<close>

theorem strict_filter_examples:
  "is_interesting_js ''https://www.google-analytics.com/analytics.js'' UNINTERESTING_JS_STRICT
   \<and> is_interesting_js ''https://cdn.jsdelivr.net/npm/lodash/lodash.js'' UNINTERESTING_JS_STRICT
   \<and> is_interesting_js ''https://example.com/app.min.js'' UNINTERESTING_JS_STRICT
   \<and> \<not> is_interesting_js ''https://example.com/vendor/app.js'' UNINTERESTING_JS_STRICT"
  by (simp add: filter_defs text_defs)

subsection \<open>Failures inside the response handler\<close>

text \<open>
  C6. The handler never changes the list \<open>errors\<close>. A body that cannot be read and a
  write that fails are caught and reported through \<open>log.error\<close> only.
\<close>

theorem handler_failures_are_only_logged:
  "errors (on_response e cfg r s) = errors s
   \<and> on_response example_env (collector_of example_args) broken_resp new_ledger
       = new_ledger\<lparr>error_log := [(''https://example.com/app.js'', Body_unavailable)]\<rparr>
   \<and> on_response full_disk_env (collector_of example_args) app_resp new_ledger
       = new_ledger\<lparr>hash_set := {''6c65742061203d20313b''},
                     error_log := [(''https://example.com/app.js'', Write_failed)]\<rparr>"
proof (intro conjI)
  show "errors (on_response e cfg r s) = errors s"
    by (rule on_response_errors)
  have acc: "accepted (collector_of example_args) broken_resp"
    using accepted_examples(1) by (simp add: accepted_def broken_resp_def app_resp_def)
  show "on_response example_env (collector_of example_args) broken_resp new_ledger
       = new_ledger\<lparr>error_log := [(''https://example.com/app.js'', Body_unavailable)]\<rparr>"
    using on_response_body_error[OF acc, of example_env new_ledger]
    by (simp add: broken_resp_def new_ledger_def)
  show "on_response full_disk_env (collector_of example_args) app_resp new_ledger
       = new_ledger\<lparr>hash_set := {''6c65742061203d20313b''},
                     error_log := [(''https://example.com/app.js'', Write_failed)]\<rparr>"
    using on_response_new[OF accepted_examples(1), where c = "''let a = 1;''"
        and e = full_disk_env and s = new_ledger]
    by (simp add: app_resp_def collector_of_example full_disk_env_def hex_let_a new_ledger_def)
qed

subsection \<open>The name of an inline file\<close>

text \<open>
  C8. For a target with an explicit port the inline file name keeps the colon of the
  domain, while \<open>build_filename\<close> replaces it in the name of an external file.
\<close>

lemma domain_port: "get_domain_from_url ''https://example.com:8443'' = ''example.com:8443''"
  by (simp add: get_domain_from_url_def urlparse_defs text_defs)

lemma port_args_fields:
  "target_url port_args = ''https://example.com:8443''"
  "arg_crawl port_args = False"
  "arg_max_depth port_args = 2"
  by (simp_all add: port_args_def)

lemma collector_of_port:
  "collector_of port_args =
     \<lparr>domain = ''example.com:8443'', uninteresting_patterns = UNINTERESTING_JS_STRICT,
      include_cross_origin = False, min_size = 4\<rparr>"
  by (simp add: collector_of_def port_args_def domain_port)

theorem inline_filename_keeps_colon:
  "saved (fst (download_js_files example_env port_args port_world))
     = [(''example.com:8443_inline_76617220.js'', ''var b = 2;'')]
   \<and> build_filename example_env ''https://example.com:8443/app.js'' ''var b = 2;''
     = ''example.com_8443_app_76617220.js''"
proof (intro conjI)
  show "saved (fst (download_js_files example_env port_args port_world))
     = [(''example.com:8443_inline_76617220.js'', ''var b = 2;'')]"
    by (simp add: download_js_files_def Let_def port_world_def crawl_links_stop
        process_inline_scripts_def new_ledger_def collector_of_port port_args_fields
        example_env_def hex_var_b inline_filter_examples)
  show "build_filename example_env ''https://example.com:8443/app.js'' ''var b = 2;''
     = ''example.com_8443_app_76617220.js''"
    by (simp add: build_filename_def urlparse_defs text_defs sanitize_filename_part_def
        forbidden_chars_def example_env_def hex_var_b)
qed

subsection \<open>The crawl\<close>

lemma crawl_links_preserves_pair:
  assumes step: "\<And>v t r. Q (v, t) \<Longrightarrow> Q (v, on_response e cfg r t)"
      and err: "\<And>v t x. Q (v, t) \<Longrightarrow> Q (v, t\<lparr>errors := x\<rparr>)"
      and enter: "\<And>v t u. Q (v, t) \<Longrightarrow> normalize_url u \<notin> v \<Longrightarrow>
                   Q (insert (normalize_url u) v, t\<lparr>collectors := collectors t @ [u]\<rparr>)"
      and mark: "\<And>v t u. Q (v, t) \<Longrightarrow> normalize_url u \<notin> v \<Longrightarrow>
                   Q (insert (normalize_url u) v, t)"
  shows "Q vs \<Longrightarrow> Q (crawl_links e cfg crawl site u d vs)"
proof (induction "nat d" arbitrary: d u vs rule: less_induct)
  case less
  obtain visited s where vs: "vs = (visited, s)" by (cases vs)
  have Qs: "Q (visited, s)" using less.prems vs by simp
  consider (stop) "\<not> crawl \<or> normalize_url u \<in> visited"
    | (zero) "crawl" "normalize_url u \<notin> visited" "d \<le> 0"
    | (go) "crawl" "normalize_url u \<notin> visited" "0 < d"
    by linarith
  then show ?case
  proof cases
    case stop
    then show ?thesis using Qs by (simp add: vs crawl_links_stop)
  next
    case zero
    then show ?thesis using mark[OF Qs zero(2)] by (simp add: vs crawl_links_depth0)
  next
    case go
    let ?v1 = "insert (normalize_url u) visited"
    let ?s1 = "s\<lparr>collectors := collectors s @ [u]\<rparr>"
    let ?s2 = "foldl (\<lambda>t r. on_response e cfg r t) ?s1 (responses (site u))"
    have Q1: "Q (?v1, ?s1)" by (rule enter[OF Qs go(2)])
    have Q2: "Q (?v1, ?s2)"
      by (rule foldl_preserves[where P = "\<lambda>t. Q (?v1, t)"]) (use step Q1 in auto)
    show ?thesis
    proof (cases "outcome (site u)")
      case (Nav_failed msg)
      then show ?thesis
        using go err[OF Q2, of "errors s @ [''Crawl error: '' @ u @ '' - '' @ msg]"]
        by (simp add: vs crawl_links_failed)
    next
      case (Nav_ok links)
      have "Q (foldl (\<lambda>vs href. crawl_links e cfg crawl site href (d - 1) vs)
                 (?v1, ?s2) hrefs)" for hrefs
      proof (rule foldl_preserves[where P = Q])
        fix a :: "string set \<times> ledger" and x :: string
        assume "Q a"
        then show "Q (crawl_links e cfg crawl site x (d - 1) a)"
          using go by (intro less.hyps) auto
      qed (rule Q2)
      then show ?thesis using go Nav_ok by (simp add: vs crawl_links_expand[where links = links])
    qed
  qed
qed

lemma crawl_links_trace:
  "\<exists>new. collectors (snd (crawl_links e cfg crawl site u d (visited, s))) = collectors s @ new
     \<and> distinct (map normalize_url new)
     \<and> normalize_url ` set new \<inter> visited = {}
     \<and> normalize_url ` set new \<subseteq> fst (crawl_links e cfg crawl site u d (visited, s))
     \<and> visited \<subseteq> fst (crawl_links e cfg crawl site u d (visited, s))"
proof -
  define Q where "Q = (\<lambda>vs :: string set \<times> ledger.
     \<exists>new. collectors (snd vs) = collectors s @ new
       \<and> distinct (map normalize_url new)
       \<and> normalize_url ` set new \<inter> visited = {}
       \<and> normalize_url ` set new \<subseteq> fst vs
       \<and> visited \<subseteq> fst vs)"
  have "Q (crawl_links e cfg crawl site u d (visited, s))"
  proof (rule crawl_links_preserves_pair)
    show "Q (visited, s)" by (simp add: Q_def)
  next
    fix v t r assume "Q (v, t)"
    then show "Q (v, on_response e cfg r t)"
      by (simp add: Q_def on_response_collectors)
  next
    fix v t x assume "Q (v, t)"
    then show "Q (v, t\<lparr>errors := x\<rparr>)" by (simp add: Q_def)
  next
    fix v t w assume q: "Q (v, t)" and n: "normalize_url w \<notin> v"
    from q obtain new where new: "collectors t = collectors s @ new"
      "distinct (map normalize_url new)" "normalize_url ` set new \<inter> visited = {}"
      "normalize_url ` set new \<subseteq> v" "visited \<subseteq> v"
      by (auto simp: Q_def)
    have "collectors (t\<lparr>collectors := collectors t @ [w]\<rparr>) = collectors s @ (new @ [w])"
      using new(1) by simp
    moreover have "distinct (map normalize_url (new @ [w]))"
      using new(2,4) n by auto
    moreover have "normalize_url ` set (new @ [w]) \<inter> visited = {}"
      using new(3,5) n by auto
    moreover have "normalize_url ` set (new @ [w]) \<subseteq> insert (normalize_url w) v"
      using new(4) by auto
    moreover have "visited \<subseteq> insert (normalize_url w) v"
      using new(5) by blast
    ultimately show "Q (insert (normalize_url w) v, t\<lparr>collectors := collectors t @ [w]\<rparr>)"
      unfolding Q_def fst_conv snd_conv by blast
  next
    fix v t w assume q: "Q (v, t)" and n: "normalize_url w \<notin> v"
    from q obtain new where new: "collectors t = collectors s @ new"
      "distinct (map normalize_url new)" "normalize_url ` set new \<inter> visited = {}"
      "normalize_url ` set new \<subseteq> v" "visited \<subseteq> v"
      by (auto simp: Q_def)
    have "normalize_url ` set new \<subseteq> insert (normalize_url w) v"
      using new(4) by blast
    moreover have "visited \<subseteq> insert (normalize_url w) v"
      using new(5) by blast
    ultimately show "Q (insert (normalize_url w) v, t)"
      unfolding Q_def fst_conv snd_conv using new(1,2,3) by blast
  qed
  then show ?thesis by (simp add: Q_def)
qed

lemma cycle_urls:
  "normalize_url ''https://example.com/a'' = ''https://example.com/a''"
  "normalize_url ''https://example.com/b'' = ''https://example.com/b''"
  "normalize_url ''https://example.com/c'' = ''https://example.com/c''"
  "get_domain_from_url ''https://example.com/a'' = ''example.com''"
  "get_domain_from_url ''https://example.com/b'' = ''example.com''"
  "get_domain_from_url ''https://example.com/c'' = ''example.com''"
  by (simp_all add: normalize_url_def get_domain_from_url_def urlparse_defs urlunparse_defs
      text_defs)

lemma example_facts:
  "domain (collector_of example_args) = ''example.com''"
  "collectors new_ledger = []"
  by (simp_all add: collector_of_example new_ledger_def)

lemma cycle_crawl:
  "crawl_links e (collector_of example_args) True cycle_site ''https://example.com/a'' 2
     ({}, new_ledger)
   = ({''https://example.com/c'', ''https://example.com/b'', ''https://example.com/a''},
      new_ledger\<lparr>collectors := [''https://example.com/a'', ''https://example.com/b'']\<rparr>)"
proof -
  let ?cfg = "collector_of example_args"
  let ?sa = "new_ledger\<lparr>collectors := [''https://example.com/a'']\<rparr>"
  let ?sb = "new_ledger\<lparr>collectors := [''https://example.com/a'', ''https://example.com/b'']\<rparr>"
  have c: "crawl_links e ?cfg True cycle_site ''https://example.com/c'' 0
             ({''https://example.com/b'', ''https://example.com/a''}, ?sb)
           = ({''https://example.com/c'', ''https://example.com/b'', ''https://example.com/a''}, ?sb)"
    by (simp add: crawl_links_depth0 cycle_urls)
  have ob: "outcome (cycle_site ''https://example.com/b'') = Nav_ok [''https://example.com/c'']"
    and rb: "responses (cycle_site ''https://example.com/b'') = []"
    and oa: "outcome (cycle_site ''https://example.com/a'') = Nav_ok [''https://example.com/b'']"
    and ra: "responses (cycle_site ''https://example.com/a'') = []"
    by (simp_all add: cycle_site_def)
  have b: "crawl_links e ?cfg True cycle_site ''https://example.com/b'' 1
             ({''https://example.com/a''}, ?sa)
           = ({''https://example.com/c'', ''https://example.com/b'', ''https://example.com/a''}, ?sb)"
    using crawl_links_expand[where crawl = True and u = "''https://example.com/b''"
        and visited = "{''https://example.com/a''}" and d = 1 and site = cycle_site
        and links = "[''https://example.com/c'']" and e = e and cfg = ?cfg and s = ?sa, OF _ _ _ ob]
    by (simp add: cycle_urls rb example_facts c)
  show ?thesis
    using crawl_links_expand[where crawl = True and u = "''https://example.com/a''"
        and visited = "{}" and d = 2 and site = cycle_site
        and links = "[''https://example.com/b'']" and e = e and cfg = ?cfg and s = new_ledger,
        OF _ _ _ oa]
    by (simp add: cycle_urls ra example_facts b)
qed

text \<open>
  C3, as amended. A branch entered with no depth left on a URL not yet visited inserts the
  normalized URL into the visited set and does nothing else: no page is opened and no
  collector is registered. The crawl of depth 2 over the cycle, started at a, marks a, b
  and c as visited and registers a collector on a and on b only.
\<close>

theorem depth_zero_only_marks:
  "(crawl \<and> normalize_url u \<notin> visited \<and> d \<le> 0 \<longrightarrow>
      crawl_links e cfg crawl site u d (visited, s) = (insert (normalize_url u) visited, s))
   \<and> crawl_links e (collector_of example_args) True cycle_site ''https://example.com/a'' 2
        ({}, new_ledger)
      = ({''https://example.com/c'', ''https://example.com/b'', ''https://example.com/a''},
         new_ledger\<lparr>collectors := [''https://example.com/a'', ''https://example.com/b'']\<rparr>)"
  by (simp add: crawl_links_depth0 cycle_crawl)

theorem depth_zero_only_marks_witness:
  "normalize_url ''https://example.com/c'' \<notin> {''https://example.com/b'', ''https://example.com/a''}
   \<and> crawl_links example_env (collector_of example_args) True cycle_site
        ''https://example.com/c'' 0
        ({''https://example.com/b'', ''https://example.com/a''}, new_ledger)
      = ({''https://example.com/c'', ''https://example.com/b'', ''https://example.com/a''},
         new_ledger)"
  using depth_zero_only_marks[where crawl = True and u = "''https://example.com/c''"
      and visited = "{''https://example.com/b'', ''https://example.com/a''}" and d = 0
      and e = example_env and cfg = "collector_of example_args" and site = cycle_site
      and s = new_ledger]
  by (simp add: cycle_urls)

text \<open>
  The claim as stated fails on the cycle: c is visited, and no collector is registered
  on it.
\<close>

theorem depth_zero_only_marks_counterexample:
  "''https://example.com/c''
     \<in> fst (crawl_links example_env (collector_of example_args) True cycle_site
              ''https://example.com/a'' 2 ({}, new_ledger))
   \<and> collectors (snd (crawl_links example_env (collector_of example_args) True cycle_site
              ''https://example.com/a'' 2 ({}, new_ledger)))
       = [''https://example.com/a'', ''https://example.com/b'']"
  by (simp add: cycle_crawl)

text \<open>
  C4. \<open>crawl_links\<close> is a total function: its recursion ends because every recursive call
  lowers the remaining depth. The pages a crawl opens are new to the visited set it was
  given, no two of them have the same normalized URL, and all of them are in the visited
  set it returns, which only grows.
\<close>

theorem visited_set_bounds_crawl:
  "\<exists>new. collectors (snd (crawl_links e cfg crawl site u d (visited, s))) = collectors s @ new
     \<and> distinct (map normalize_url new)
     \<and> normalize_url ` set new \<inter> visited = {}
     \<and> normalize_url ` set new \<subseteq> fst (crawl_links e cfg crawl site u d (visited, s))
     \<and> visited \<subseteq> fst (crawl_links e cfg crawl site u d (visited, s))"
  by (rule crawl_links_trace)

theorem visited_set_bounds_crawl_witness:
  "\<exists>new. collectors (snd (crawl_links example_env (collector_of example_args) True cycle_site
              ''https://example.com/a'' 2 ({}, new_ledger))) = collectors new_ledger @ new
     \<and> distinct (map normalize_url new)
     \<and> normalize_url ` set new \<inter> {} = {}
     \<and> normalize_url ` set new
         \<subseteq> fst (crawl_links example_env (collector_of example_args) True cycle_site
              ''https://example.com/a'' 2 ({}, new_ledger))
     \<and> {} \<subseteq> fst (crawl_links example_env (collector_of example_args) True cycle_site
              ''https://example.com/a'' 2 ({}, new_ledger))"
  by (rule visited_set_bounds_crawl)

end
